theory Spec2Isabelle
  imports Main "HOL-Library.Word"
begin

unbundle bit_operations_syntax

section \<open>Transcription service: data model\<close>

text \<open>
  The service of \<^verbatim>\<open>transcription.py\<close> has two request handlers,
  \<^verbatim>\<open>transcribe_audio_file\<close> and \<^verbatim>\<open>transcribe_base64_audio\<close>, and one adapter,
  \<^verbatim>\<open>_call_sarvam_transcription_api\<close>. All three work through effects: files of the
  temporary directory, the process-wide provider client and exceptions. The embedding
  makes each of them a value: the file system is a map from paths to contents, every
  effect on it and every call of the provider is appended to a trace, and an exception
  is the left summand of a result.
\<close>

type_synonym byte = "8 word"
type_synonym bytes = "byte list"
type_synonym path = string

text \<open>
  Values found in the provider's response mapping. A \<^verbatim>\<open>str\<close> and \<^verbatim>\<open>None\<close> are
  modelled; the response model accepts the first as \<^verbatim>\<open>transcribed_text\<close> and rejects
  the second.
\<close>

datatype pyval = PyStr string | PyNone

text \<open>
  The exceptions of the program: \<^verbatim>\<open>Exception(msg)\<close> as raised by the adapter, and the
  library's own (\<^verbatim>\<open>binascii.Error\<close> and \<^verbatim>\<open>ValueError\<close> of the decoder, \<^verbatim>\<open>OSError\<close>
  of a failed write, \<^verbatim>\<open>FileNotFoundError\<close> of \<^verbatim>\<open>open\<close>, \<^verbatim>\<open>FileExistsError\<close> of
  \<^verbatim>\<open>tempfile\<close>, the validation error of the response model).
\<close>

datatype exn =
    PyException string
  | BinasciiError
  | ValueError
  | OSError
  | FileNotFoundError
  | FileExistsError
  | ValidationError

text \<open>
  The detail of an \<^verbatim>\<open>HTTPException\<close> is a literal message, or the text
  \<^verbatim>\<open>f"Transcription service failed: {e}"\<close>, kept as the exception \<open>e\<close> it renders.
\<close>

datatype detail = Msg string | ServiceFailed exn

record TranscriptionResponse =
  resp_filename :: string
  transcribed_text :: string

text \<open>
  What a handler produces: the response model (status 200), an \<^verbatim>\<open>HTTPException\<close> with
  its status code, or an exception that no handler of the function catches.
\<close>

datatype outcome =
    Ok TranscriptionResponse
  | HTTPException nat detail
  | Uncaught exn

fun status_code :: "outcome \<Rightarrow> nat option" where
  "status_code (Ok r) = Some 200"
| "status_code (HTTPException c d) = Some c"
| "status_code (Uncaught e) = None"

record Base64AudioRequest =
  audio_data :: string
  file_extension :: string
  req_filename :: string

text \<open>
  An \<^verbatim>\<open>UploadFile\<close>: the declared content type and the filename may be \<^verbatim>\<open>None\<close>;
  \<open>body\<close> is what reading \<^verbatim>\<open>file.file\<close> yields.
\<close>

record UploadFile =
  content_type :: "string option"
  filename :: "string option"
  body :: bytes

text \<open>
  The provider behind \<^verbatim>\<open>SARVAM_CLIENT.speech_to_text.transcribe\<close>: given the audio
  bytes, the model and the language code it raises (with a message) or returns a
  response mapping.
\<close>

datatype provider_result = Raises string | Returns "string \<rightharpoonup> pyval"

type_synonym provider = "bytes \<Rightarrow> string \<Rightarrow> string \<Rightarrow> provider_result"

datatype event =
    FileCreated path
  | FileWritten path bytes
  | FileDeleted path
  | ProviderCall bytes string string

text \<open>The mutable world: the files on disk and the trace of effects so far.\<close>

record world =
  fs :: "path \<rightharpoonup> bytes"
  trace :: "event list"

text \<open>
  What a request does not change: the global \<^verbatim>\<open>SARVAM_CLIENT\<close> (\<open>None\<close> when the SDK
  failed to import or to initialise), the directory \<^verbatim>\<open>tempfile.gettempdir()\<close>, the
  sequence of random names \<^verbatim>\<open>tempfile\<close> draws, the longest file name the file system
  takes (\<^verbatim>\<open>NAME_MAX\<close>, 255 bytes on Linux), the paths that cannot be opened for
  writing (missing directory, no permission), and how storing audio bytes fails, if it
  does: \<open>write_fails\<close> says that writing the bytes to the temporary file raises (disk
  full, broken upload stream), \<open>written_before_failure\<close> how many bytes reached the
  file before that, and \<open>fails_at_close\<close> whether the failure shows only when the file
  is closed, the bytes having been buffered until then. \<^verbatim>\<open>os.unlink\<close> of an existing
  file succeeds.
\<close>

record env =
  SARVAM_CLIENT :: "provider option"
  tmpdir :: string
  names :: "string list"
  name_max :: nat
  open_fails :: "path \<Rightarrow> bool"
  write_fails :: bool
  written_before_failure :: nat
  fails_at_close :: bool

definition DEFAULT_TRANSCRIPTION_MODEL :: string where
  "DEFAULT_TRANSCRIPTION_MODEL = ''saarika:v2.5''"

definition DEFAULT_LANGUAGE_CODE :: string where
  "DEFAULT_LANGUAGE_CODE = ''gu-IN''"

section \<open>Library functions the handlers call\<close>

subsection \<open>\<^verbatim>\<open>os.path\<close>\<close>

text \<open>\<^verbatim>\<open>str.rfind\<close> for one character: the last index, or -1.\<close>

fun rfind_from :: "char \<Rightarrow> string \<Rightarrow> nat \<Rightarrow> int \<Rightarrow> int" where
  "rfind_from c [] i found = found"
| "rfind_from c (x # xs) i found = rfind_from c xs (Suc i) (if x = c then int i else found)"

definition rfind :: "string \<Rightarrow> char \<Rightarrow> int" where
  "rfind p c = rfind_from c p 0 (- 1)"

text \<open>
  The loop of \<^verbatim>\<open>genericpath._splitext\<close> that skips leading dots: true when some
  character from \<open>i\<close> up to the last dot is not a dot.
\<close>

function non_dot_before :: "string \<Rightarrow> nat \<Rightarrow> nat \<Rightarrow> bool" where
  "non_dot_before p i dotIndex =
     (if i < dotIndex then
        (if p ! i \<noteq> CHR ''.'' then True else non_dot_before p (Suc i) dotIndex)
      else False)"
  by pat_completeness auto
termination
  by (relation "measure (\<lambda>(p, i, dotIndex). dotIndex - i)") auto

declare non_dot_before.simps [simp del]

definition splitext :: "string \<Rightarrow> string \<times> string" where
  "splitext p =
     (let sepIndex = rfind p CHR ''/'';
          dotIndex = rfind p CHR ''.''
      in if sepIndex < dotIndex \<and> non_dot_before p (nat (sepIndex + 1)) (nat dotIndex)
         then (take (nat dotIndex) p, drop (nat dotIndex) p)
         else (p, []))"

text \<open>\<^verbatim>\<open>posixpath.join\<close> of a directory and one component.\<close>

definition os_path_join :: "string \<Rightarrow> string \<Rightarrow> string" where
  "os_path_join a b =
     (if take 1 b = ''/'' then b
      else if a = [] \<or> last a = CHR ''/'' then a @ b
      else a @ ''/'' @ b)"

subsection \<open>\<^verbatim>\<open>base64.b64decode\<close>\<close>

text \<open>
  \<^verbatim>\<open>base64.b64decode(s)\<close> with its defaults (\<^verbatim>\<open>validate=False\<close>) first encodes a
  \<^verbatim>\<open>str\<close> as ASCII, raising \<^verbatim>\<open>ValueError\<close> on a character outside ASCII, then calls
  \<^verbatim>\<open>binascii.a2b_base64\<close> in its non-strict mode: a character outside the alphabet is
  skipped, a pad that completes a quad ends the decoding, and only an incomplete quad
  at the end of the input raises \<^verbatim>\<open>binascii.Error\<close>.
\<close>

definition table_a2b_base64 :: "char \<Rightarrow> byte option" where
  "table_a2b_base64 c =
     (let n = (of_char c :: nat) in
      if 65 \<le> n \<and> n \<le> 90 then Some (of_nat (n - 65))
      else if 97 \<le> n \<and> n \<le> 122 then Some (of_nat (n - 71))
      else if 48 \<le> n \<and> n \<le> 57 then Some (of_nat (n + 4))
      else if n = 43 then Some 62
      else if n = 47 then Some 63
      else None)"

fun a2b_base64_loop :: "string \<Rightarrow> nat \<Rightarrow> byte \<Rightarrow> nat \<Rightarrow> bytes \<Rightarrow> exn + bytes" where
  "a2b_base64_loop [] quad_pos leftchar pads out =
     (if quad_pos \<noteq> 0 then Inl BinasciiError else Inr out)"
| "a2b_base64_loop (c # cs) quad_pos leftchar pads out =
     (if c = CHR ''='' then
        (if 2 \<le> quad_pos then
           (if 4 \<le> quad_pos + (pads + 1) then Inr out
            else a2b_base64_loop cs quad_pos leftchar (pads + 1) out)
         else a2b_base64_loop cs quad_pos leftchar pads out)
      else
        (case table_a2b_base64 c of
           None \<Rightarrow> a2b_base64_loop cs quad_pos leftchar pads out
         | Some this_ch \<Rightarrow>
             (if quad_pos = 0 then a2b_base64_loop cs 1 this_ch 0 out
              else if quad_pos = 1 then
                a2b_base64_loop cs 2 (this_ch AND 0x0f) 0
                  (out @ [push_bit 2 leftchar OR drop_bit 4 this_ch])
              else if quad_pos = 2 then
                a2b_base64_loop cs 3 (this_ch AND 0x03) 0
                  (out @ [push_bit 4 leftchar OR drop_bit 2 this_ch])
              else
                a2b_base64_loop cs 0 0 0 (out @ [push_bit 6 leftchar OR this_ch]))))"

definition a2b_base64 :: "string \<Rightarrow> exn + bytes" where
  "a2b_base64 s = a2b_base64_loop s 0 0 0 []"

definition is_ascii :: "string \<Rightarrow> bool" where
  "is_ascii s = list_all (\<lambda>c. (of_char c :: nat) < 128) s"

definition b64decode :: "string \<Rightarrow> exn + bytes" where
  "b64decode s = (if is_ascii s then a2b_base64 s else Inl ValueError)"

subsection \<open>\<^verbatim>\<open>tempfile\<close> and file writes\<close>

text \<open>
  \<^verbatim>\<open>tempfile._mkstemp_inner\<close>: the candidates are tried in turn, each as
  \<^verbatim>\<open>os.path.join(dir, "tmp" + name + suffix)\<close> handed to \<^verbatim>\<open>os.open\<close> with
  \<^verbatim>\<open>O_CREAT | O_EXCL\<close>. A path with a NUL character raises \<^verbatim>\<open>ValueError\<close>, a file
  name longer than \<^verbatim>\<open>NAME_MAX\<close> or a path that cannot be opened raises \<^verbatim>\<open>OSError\<close>,
  and both leave the function; a path that exists makes it try the next candidate, and
  when every candidate exists it raises \<^verbatim>\<open>FileExistsError\<close>. The suffix the upload
  handler passes is an extension, which holds no \<^verbatim>\<open>/\<close>, so
  \<^verbatim>\<open>"tmp" + name + suffix\<close> is the file name.
\<close>

fun mkstemp_inner ::
  "env \<Rightarrow> (path \<rightharpoonup> bytes) \<Rightarrow> string \<Rightarrow> string \<Rightarrow> string list \<Rightarrow> exn + path" where
  "mkstemp_inner e files dir suf [] = Inl FileExistsError"
| "mkstemp_inner e files dir suf (name # rest) =
     (let file = os_path_join dir (''tmp'' @ name @ suf) in
      if CHR 0x00 \<in> set file then Inl ValueError
      else if name_max e < length (''tmp'' @ name @ suf) \<or> open_fails e file then Inl OSError
      else if files file = None then Inr file
      else mkstemp_inner e files dir suf rest)"

text \<open>
  \<^verbatim>\<open>tempfile.NamedTemporaryFile(delete=False, suffix=ext)\<close>: an empty file under the
  chosen name, which closing does not delete.
\<close>

definition NamedTemporaryFile :: "env \<Rightarrow> world \<Rightarrow> string \<Rightarrow> exn + (path \<times> world)" where
  "NamedTemporaryFile e w suffix =
     (case mkstemp_inner e (fs w) (tmpdir e) suffix (names e) of
        Inl err \<Rightarrow> Inl err
      | Inr name \<Rightarrow>
          Inr (name, w\<lparr>fs := (fs w)(name \<mapsto> []), trace := trace w @ [FileCreated name]\<rparr>))"

text \<open>
  \<^verbatim>\<open>open(path, "wb")\<close>: it raises for a path that cannot be opened; otherwise the file
  is created, or truncated when it exists.
\<close>

definition open_wb :: "env \<Rightarrow> world \<Rightarrow> path \<Rightarrow> exn + world" where
  "open_wb e w p =
     (if open_fails e p then Inl OSError
      else Inr (w\<lparr>fs := (fs w)(p \<mapsto> []), trace := trace w @ [FileCreated p]\<rparr>))"

text \<open>
  The two ends of storing bytes in an open file: all of them, recorded in the trace, or
  the bytes that reached the file before the failure.
\<close>

definition completed_write :: "world \<Rightarrow> path \<Rightarrow> bytes \<Rightarrow> world" where
  "completed_write w p data =
     w\<lparr>fs := (fs w)(p \<mapsto> data), trace := trace w @ [FileWritten p data]\<rparr>"

definition failed_write :: "env \<Rightarrow> world \<Rightarrow> path \<Rightarrow> bytes \<Rightarrow> world" where
  "failed_write e w p data = w\<lparr>fs := (fs w)(p \<mapsto> take (written_before_failure e) data)\<rparr>"

text \<open>
  \<^verbatim>\<open>with open(...) as f: f.write(audio_bytes)\<close> of the Base64 handler, the write and the
  close at the end of the \<^verbatim>\<open>with\<close> block taken together: both stand inside the
  handler's \<^verbatim>\<open>try\<close>, so it makes no difference which of them raises.
\<close>

definition file_write :: "env \<Rightarrow> world \<Rightarrow> path \<Rightarrow> bytes \<Rightarrow> (exn \<times> world) + world" where
  "file_write e w p data =
     (if write_fails e then Inl (OSError, failed_write e w p data)
      else Inr (completed_write w p data))"

text \<open>
  \<^verbatim>\<open>shutil.copyfileobj(file.file, tmp)\<close> of the upload handler. It raises when the
  stream breaks or the write is refused; a failure that shows only at the close leaves
  the copy itself successful, the bytes waiting in the buffer.
\<close>

definition copyfileobj :: "env \<Rightarrow> world \<Rightarrow> bytes \<Rightarrow> path \<Rightarrow> (exn \<times> world) + world" where
  "copyfileobj e w src dst =
     (if write_fails e then
        (if fails_at_close e then Inr w else Inl (OSError, failed_write e w dst src))
      else Inr (completed_write w dst src))"

text \<open>
  Leaving the \<^verbatim>\<open>with\<close> block of the upload handler closes the temporary file and
  flushes its buffer; that is where a failure of the buffered write is raised.
\<close>

definition tmp_close :: "env \<Rightarrow> world \<Rightarrow> bytes \<Rightarrow> path \<Rightarrow> (exn \<times> world) + world" where
  "tmp_close e w src dst =
     (if write_fails e \<and> fails_at_close e then Inl (OSError, failed_write e w dst src)
      else Inr w)"

section \<open>The adapter\<close>

definition NOT_FOUND :: string where
  "NOT_FOUND = ''Transcription result not found in API response.''"

text \<open>\<^verbatim>\<open>dict.get(key, default)\<close>.\<close>

definition dict_get :: "('k \<rightharpoonup> 'v) \<Rightarrow> 'k \<Rightarrow> 'v \<Rightarrow> 'v" where
  "dict_get d k dflt = (case d k of None \<Rightarrow> dflt | Some v \<Rightarrow> v)"

text \<open>
  Step 3 of the adapter:
  \<^verbatim>\<open>response.get('text', response.get('transcript', 'Transcription result not found ...'))\<close>.
\<close>

definition extract_transcribed_text :: "(string \<rightharpoonup> pyval) \<Rightarrow> pyval" where
  "extract_transcribed_text response =
     dict_get response ''text'' (dict_get response ''transcript'' (PyStr NOT_FOUND))"

text \<open>
  \<^verbatim>\<open>_call_sarvam_transcription_api(file_path)\<close>. The check of the client and
  \<^verbatim>\<open>open(file_path, 'rb')\<close> stand outside the \<^verbatim>\<open>try\<close>; what the provider raises is
  raised again as \<^verbatim>\<open>Exception("Sarvam AI Transcription failed: ...")\<close>.
\<close>

definition call_sarvam_transcription_api :: "env \<Rightarrow> world \<Rightarrow> path \<Rightarrow> (exn + pyval) \<times> world" where
  "call_sarvam_transcription_api e w file_path =
     (case SARVAM_CLIENT e of
        None \<Rightarrow>
          (Inl (PyException
             ''Sarvam AI Client failed to initialize. Check SDK installation and API Key.''), w)
      | Some client \<Rightarrow>
          (case fs w file_path of
             None \<Rightarrow> (Inl FileNotFoundError, w)
           | Some audio_file \<Rightarrow>
               (let w' = w\<lparr>trace := trace w @
                      [ProviderCall audio_file DEFAULT_TRANSCRIPTION_MODEL DEFAULT_LANGUAGE_CODE]\<rparr>
                in case client audio_file DEFAULT_TRANSCRIPTION_MODEL DEFAULT_LANGUAGE_CODE of
                     Raises msg \<Rightarrow>
                       (Inl (PyException (''Sarvam AI Transcription failed: '' @ msg)), w')
                   | Returns response \<Rightarrow> (Inr (extract_transcribed_text response), w'))))"

section \<open>The request handlers\<close>

text \<open>\<^verbatim>\<open>x or default\<close> for an optional string: \<^verbatim>\<open>None\<close> and the empty string are falsy.\<close>

definition py_or :: "string option \<Rightarrow> string \<Rightarrow> string" where
  "py_or x dflt = (case x of None \<Rightarrow> dflt | Some s \<Rightarrow> if s = [] then dflt else s)"

definition startswith :: "string \<Rightarrow> string \<Rightarrow> bool" where
  "startswith s pre = (take (length pre) s = pre)"

text \<open>
  The guard of the upload handler:
  \<^verbatim>\<open>not file.content_type or not file.content_type.startswith('audio/')\<close>.
\<close>

definition invalid_file_type :: "string option \<Rightarrow> bool" where
  "invalid_file_type ct =
     (case ct of None \<Rightarrow> True | Some s \<Rightarrow> s = [] \<or> \<not> startswith s ''audio/'')"

text \<open>
  \<^verbatim>\<open>TranscriptionResponse(filename=..., transcribed_text=...)\<close>: the model validates
  that the text is a \<^verbatim>\<open>str\<close>.
\<close>

definition make_response :: "string \<Rightarrow> pyval \<Rightarrow> exn + TranscriptionResponse" where
  "make_response name text =
     (case text of
        PyStr s \<Rightarrow> Inr \<lparr>resp_filename = name, transcribed_text = s\<rparr>
      | PyNone \<Rightarrow> Inl ValidationError)"

text \<open>
  The \<^verbatim>\<open>finally\<close> block of both handlers:
  \<^verbatim>\<open>if temp_file_path and os.path.exists(temp_file_path): os.unlink(temp_file_path)\<close>.
\<close>

definition cleanup :: "world \<Rightarrow> path option \<Rightarrow> world" where
  "cleanup w temp_file_path =
     (case temp_file_path of
        None \<Rightarrow> w
      | Some p \<Rightarrow>
          if p \<noteq> [] \<and> fs w p \<noteq> None
          then w\<lparr>fs := (fs w)(p := None), trace := trace w @ [FileDeleted p]\<rparr>
          else w)"

text \<open>
  The \<^verbatim>\<open>try\<close> body of the upload handler (lines 134 to 141): the adapter, then the
  response model.
\<close>

definition upload_try_body :: "env \<Rightarrow> world \<Rightarrow> UploadFile \<Rightarrow> path \<Rightarrow> (exn + TranscriptionResponse) \<times> world" where
  "upload_try_body e w f temp_file_path =
     (case call_sarvam_transcription_api e w temp_file_path of
        (Inl err, w') \<Rightarrow> (Inl err, w')
      | (Inr text, w') \<Rightarrow> (make_response (py_or (filename f) ''audio_file'') text, w'))"

text \<open>
  \<^verbatim>\<open>transcribe_audio_file(file)\<close>. When copying the body raises, the handler raises
  the 500 from inside the \<^verbatim>\<open>with\<close> block: \<^verbatim>\<open>temp_file_path\<close> is still \<^verbatim>\<open>None\<close> and the
  \<^verbatim>\<open>try ... finally\<close> below it is never entered. An exception of
  \<^verbatim>\<open>NamedTemporaryFile\<close> itself, or of the close at the end of the \<^verbatim>\<open>with\<close> block,
  is caught by nothing.
\<close>

definition transcribe_audio_file :: "env \<Rightarrow> world \<Rightarrow> UploadFile \<Rightarrow> outcome \<times> world" where
  "transcribe_audio_file e w f =
     (if invalid_file_type (content_type f) then
        (HTTPException 400 (Msg ''Invalid file type. Only audio files are accepted.''), w)
      else
        (let ext = snd (splitext (py_or (filename f) ''audio.wav'')) in
         case NamedTemporaryFile e w ext of
           Inl err \<Rightarrow> (Uncaught err, w)
         | Inr (tmp_name, w1) \<Rightarrow>
             (case copyfileobj e w1 (body f) tmp_name of
                Inl (err, w2) \<Rightarrow>
                  (HTTPException 500 (Msg ''Failed to save uploaded file temporarily.''), w2)
              | Inr w2 \<Rightarrow>
                  (case tmp_close e w2 (body f) tmp_name of
                     Inl (err, w3) \<Rightarrow> (Uncaught err, w3)
                   | Inr w3 \<Rightarrow>
                       (case upload_try_body e w3 f tmp_name of
                          (Inl err, w4) \<Rightarrow>
                            (HTTPException 503 (ServiceFailed err),
                             cleanup w4 (Some tmp_name))
                        | (Inr resp, w4) \<Rightarrow> (Ok resp, cleanup w4 (Some tmp_name)))))))"

text \<open>
  The \<^verbatim>\<open>try\<close> body of the Base64 handler (lines 164 to 179). It returns the result,
  the value of \<^verbatim>\<open>temp_file_path\<close> when the body is left, and the world.
\<close>

definition base64_try_body ::
  "env \<Rightarrow> world \<Rightarrow> Base64AudioRequest \<Rightarrow> (exn + TranscriptionResponse) \<times> path option \<times> world" where
  "base64_try_body e w request =
     (case b64decode (audio_data request) of
        Inl err \<Rightarrow> (Inl err, None, w)
      | Inr audio_bytes \<Rightarrow>
          (let temp_file_path =
                 os_path_join (tmpdir e) (''mic_recording'' @ file_extension request)
           in case open_wb e w temp_file_path of
                Inl err \<Rightarrow> (Inl err, Some temp_file_path, w)
              | Inr w1 \<Rightarrow>
                  (case file_write e w1 temp_file_path audio_bytes of
                     Inl (err, w2) \<Rightarrow> (Inl err, Some temp_file_path, w2)
                   | Inr w2 \<Rightarrow>
                       (case call_sarvam_transcription_api e w2 temp_file_path of
                          (Inl err, w3) \<Rightarrow> (Inl err, Some temp_file_path, w3)
                        | (Inr text, w3) \<Rightarrow>
                            (make_response (req_filename request) text,
                             Some temp_file_path, w3)))))"

text \<open>
  The \<^verbatim>\<open>except\<close> clauses of the Base64 handler: \<^verbatim>\<open>binascii.Error\<close> first, then any
  other \<^verbatim>\<open>Exception\<close>.
\<close>

definition base64_except :: "exn \<Rightarrow> outcome" where
  "base64_except err =
     (if err = BinasciiError
      then HTTPException 400 (Msg ''Invalid Base64 audio data received.'')
      else HTTPException 503 (ServiceFailed err))"

definition transcribe_base64_audio :: "env \<Rightarrow> world \<Rightarrow> Base64AudioRequest \<Rightarrow> outcome \<times> world" where
  "transcribe_base64_audio e w request =
     (case base64_try_body e w request of
        (Inl err, temp_file_path, w') \<Rightarrow> (base64_except err, cleanup w' temp_file_path)
      | (Inr resp, temp_file_path, w') \<Rightarrow> (Ok resp, cleanup w' temp_file_path))"

section \<open>Reading a trace, and fixtures\<close>

text \<open>The events a handler appended to the trace it started from.\<close>

definition new_events :: "world \<Rightarrow> world \<Rightarrow> event list" where
  "new_events w w' = drop (length (trace w)) (trace w')"

fun created_files :: "event list \<Rightarrow> path list" where
  "created_files [] = []"
| "created_files (FileCreated p # evs) = p # created_files evs"
| "created_files (ev # evs) = created_files evs"

fun provider_calls :: "event list \<Rightarrow> event list" where
  "provider_calls [] = []"
| "provider_calls (ProviderCall a m l # evs) = ProviderCall a m l # provider_calls evs"
| "provider_calls (ev # evs) = provider_calls evs"

definition endswith :: "string \<Rightarrow> string \<Rightarrow> bool" where
  "endswith s suf = (length suf \<le> length s \<and> drop (length s - length suf) s = suf)"

text \<open>
  A temporary file is residual when the handler created it and it is still on disk
  when the handler is done.
\<close>

definition residual_files :: "world \<Rightarrow> world \<Rightarrow> path list" where
  "residual_files w w' = filter (\<lambda>p. fs w' p \<noteq> None) (created_files (new_events w w'))"

text \<open>
  The provider mocks of the specification's scenarios: one answers every call with a
  given mapping, the other with the mapping \<^verbatim>\<open>{"text": T}\<close>.
\<close>

definition mock_provider :: "(string \<rightharpoonup> pyval) \<Rightarrow> provider" where
  "mock_provider response audio model lang = Returns response"

definition echo_provider :: "string \<Rightarrow> provider" where
  "echo_provider T = mock_provider [''text'' \<mapsto> PyStr T]"

definition empty_world :: world where
  "empty_world = \<lparr>fs = Map.empty, trace = []\<rparr>"

definition world_with :: "path \<Rightarrow> bytes \<Rightarrow> world" where
  "world_with p data = \<lparr>fs = [p \<mapsto> data], trace = []\<rparr>"

definition test_env :: "provider option \<Rightarrow> bool \<Rightarrow> env" where
  "test_env client failing =
     \<lparr>SARVAM_CLIENT = client, tmpdir = ''/tmp'', names = [''abcd1234''], name_max = 255,
      open_fails = (\<lambda>p. False), write_fails = failing, written_before_failure = 0,
      fails_at_close = False\<rparr>"

definition ten_bytes :: bytes where
  "ten_bytes = [82, 73, 70, 70, 0, 0, 0, 0, 87, 65]"

definition upload :: "string option \<Rightarrow> string option \<Rightarrow> UploadFile" where
  "upload ct name = \<lparr>content_type = ct, filename = name, body = ten_bytes\<rparr>"

definition base64_request :: "string \<Rightarrow> Base64AudioRequest" where
  "base64_request payload =
     \<lparr>audio_data = payload, file_extension = ''.wav'', req_filename = ''voice_note.wav''\<rparr>"

section \<open>Notions of the specification\<close>

text \<open>
  Valid Base64 in the words of RFC 4648, which the specification's "valid Base64" refers
  to, not read off the decoder: characters of the alphabet, then at most two pads, the
  whole a multiple of four characters long.
\<close>

definition valid_base64 :: "string \<Rightarrow> bool" where
  "valid_base64 s =
     (let data = takeWhile (\<lambda>c. c \<noteq> CHR ''='') s;
          pad = dropWhile (\<lambda>c. c \<noteq> CHR ''='') s
      in length s mod 4 = 0
         \<and> list_all (\<lambda>c. table_a2b_base64 c \<noteq> None) data
         \<and> list_all (\<lambda>c. c = CHR ''='') pad
         \<and> length pad \<le> 2)"

text \<open>The characters of the Base64 alphabet, as the decoder's table has them.\<close>

definition in_alphabet :: "char \<Rightarrow> bool" where
  "in_alphabet c = (table_a2b_base64 c \<noteq> None)"

text \<open>An outcome with the filename of its response, if it has one, replaced.\<close>

fun set_filename :: "string \<Rightarrow> outcome \<Rightarrow> outcome" where
  "set_filename name (Ok resp) = Ok (resp\<lparr>resp_filename := name\<rparr>)"
| "set_filename name (HTTPException c d) = HTTPException c d"
| "set_filename name (Uncaught err) = Uncaught err"

section \<open>Auxiliary facts\<close>

lemma startswith_audio: "startswith s ''audio/'' = (take 6 s = ''audio/'')"
proof -
  have len: "length ''audio/'' = 6" by simp
  show ?thesis unfolding startswith_def len ..
qed

lemma invalid_file_type_iff:
  "invalid_file_type ct = (ct = None \<or> (\<exists>s. ct = Some s \<and> take 6 s \<noteq> ''audio/''))"
  by (cases ct) (auto simp: invalid_file_type_def startswith_audio)

lemma os_path_join_mic_nonempty: "os_path_join d (''mic_recording'' @ x) \<noteq> []"
  by (simp add: os_path_join_def)



subsection \<open>Extensions\<close>

lemma rfind_from_absent: "c \<notin> set xs \<Longrightarrow> rfind_from c xs i found = found"
  by (induction xs arbitrary: i found) auto

lemma rfind_from_lower: "- 1 \<le> found \<Longrightarrow> - 1 \<le> rfind_from c xs i found"
  by (induction xs arbitrary: i found) auto

text \<open>A name without a dot has no extension.\<close>

lemma splitext_no_dot: "CHR ''.'' \<notin> set name \<Longrightarrow> snd (splitext name) = []"
proof -
  assume "CHR ''.'' \<notin> set name"
  then have dot: "rfind name CHR ''.'' = - 1"
    by (simp add: rfind_def rfind_from_absent)
  have "- 1 \<le> rfind name CHR ''/''"
    unfolding rfind_def by (rule rfind_from_lower) simp
  with dot show ?thesis by (simp add: splitext_def Let_def)
qed

lemma rfind_from_mono: "found < int i \<Longrightarrow> found \<le> rfind_from c xs i found"
proof (induction xs arbitrary: i found)
  case Nil
  then show ?case by simp
next
  case (Cons x xs)
  let ?found = "if x = c then int i else found"
  have "?found < int (Suc i)" using Cons.prems by simp
  then have "?found \<le> rfind_from c xs (Suc i) ?found" by (rule Cons.IH)
  moreover have "found \<le> ?found" using Cons.prems by simp
  ultimately show ?case by simp
qed

text \<open>\<^verbatim>\<open>rfind\<close> is at or after every occurrence of the character.\<close>

lemma rfind_from_last:
  "found < int i \<Longrightarrow> j < length xs \<Longrightarrow> xs ! j = c \<Longrightarrow>
     int (i + j) \<le> rfind_from c xs i found"
proof (induction xs arbitrary: i found j)
  case Nil
  then show ?case by simp
next
  case (Cons x xs)
  let ?found = "if x = c then int i else found"
  have lt: "?found < int (Suc i)" using Cons.prems(1) by simp
  show ?case
  proof (cases j)
    case 0
    then have "x = c" using Cons.prems(3) by simp
    then have "int i \<le> rfind_from c xs (Suc i) ?found"
      using rfind_from_mono [OF lt, of c xs] by simp
    then show ?thesis using 0 by simp
  next
    case (Suc k)
    then have "k < length xs" "xs ! k = c" using Cons.prems(2,3) by simp_all
    from Cons.IH [OF lt this] show ?thesis using Suc by simp
  qed
qed

text \<open>An extension holds no separator: with the suffix, the temporary name is one file name.\<close>

lemma splitext_no_sep: "CHR ''/'' \<notin> set (snd (splitext p))"
proof
  assume sep: "CHR ''/'' \<in> set (snd (splitext p))"
  let ?s = "rfind p CHR ''/''" and ?d = "rfind p CHR ''.''"
  from sep have lt: "?s < ?d" and ext: "snd (splitext p) = drop (nat ?d) p"
    by (auto simp: splitext_def Let_def split: if_splits)
  from sep obtain k where k: "k < length (drop (nat ?d) p)" "drop (nat ?d) p ! k = CHR ''/''"
    unfolding ext by (auto simp: in_set_conv_nth)
  then have j: "nat ?d + k < length p" "p ! (nat ?d + k) = CHR ''/''"
    by simp_all
  have "(- 1 :: int) < int 0" by simp
  from rfind_from_last [OF this j] have "int (0 + (nat ?d + k)) \<le> ?s"
    by (simp add: rfind_def)
  with lt show False by (auto split: if_splits)
qed

lemma splitext_default: "snd (splitext ''audio.wav'') = ''.wav''"
  by code_simp

subsection \<open>Traces and temporary names\<close>

lemma created_files_append: "created_files (xs @ ys) = created_files xs @ created_files ys"
  by (induction xs rule: created_files.induct) simp_all

lemma provider_calls_append: "provider_calls (xs @ ys) = provider_calls xs @ provider_calls ys"
  by (induction xs rule: provider_calls.induct) simp_all

lemma os_path_join_tmp:
  "\<exists>pre. os_path_join d (''tmp'' @ n @ suf) = pre @ suf \<and> pre \<noteq> []"
proof (cases "d = [] \<or> last d = CHR ''/''")
  case True
  then have "os_path_join d (''tmp'' @ n @ suf) = (d @ ''tmp'' @ n) @ suf"
    by (auto simp: os_path_join_def)
  then show ?thesis by blast
next
  case False
  then have "os_path_join d (''tmp'' @ n @ suf) = (d @ ''/'' @ ''tmp'' @ n) @ suf"
    by (auto simp: os_path_join_def)
  then show ?thesis by blast
qed

text \<open>
  The name \<^verbatim>\<open>tempfile\<close> settles on is a candidate with the suffix appended; it is
  new, has no NUL, and its file name fits.
\<close>

lemma mkstemp_inner_candidate:
  "mkstemp_inner e files dir suf ns = Inr p \<Longrightarrow>
     \<exists>n \<in> set ns. p = os_path_join dir (''tmp'' @ n @ suf)
        \<and> length (''tmp'' @ n @ suf) \<le> name_max e"
proof (induction ns)
  case Nil
  then show ?case by simp
next
  case (Cons n ns)
  show ?case
  proof (cases "mkstemp_inner e files dir suf ns = Inr p")
    case True
    then show ?thesis using Cons.IH by auto
  next
    case False
    with Cons.prems have "p = os_path_join dir (''tmp'' @ n @ suf)
        \<and> length (''tmp'' @ n @ suf) \<le> name_max e"
      by (auto simp: Let_def split: if_splits)
    then show ?thesis by auto
  qed
qed

lemma mkstemp_inner_nonempty:
  assumes "mkstemp_inner e files dir suf ns = Inr p"
  shows "p \<noteq> []"
proof -
  obtain n where "p = os_path_join dir (''tmp'' @ n @ suf)"
    using mkstemp_inner_candidate [OF assms] by blast
  moreover obtain pre where "os_path_join dir (''tmp'' @ n @ suf) = pre @ suf" "pre \<noteq> []"
    using os_path_join_tmp [of dir n suf] by blast
  ultimately show ?thesis by simp
qed

lemma mkstemp_inner_fresh:
  "mkstemp_inner e files dir suf ns = Inr p \<Longrightarrow> files p = None"
  by (induction ns) (auto simp: Let_def split: if_splits)

lemma mkstemp_inner_no_nul:
  "mkstemp_inner e files dir suf ns = Inr p \<Longrightarrow> CHR 0x00 \<notin> set p"
  by (induction ns) (auto simp: Let_def split: if_splits)

lemma NamedTemporaryFile_Inr:
  "(NamedTemporaryFile e w suffix = Inr (p, w1)) =
     (mkstemp_inner e (fs w) (tmpdir e) suffix (names e) = Inr p
      \<and> w1 = w\<lparr>fs := (fs w)(p \<mapsto> []), trace := trace w @ [FileCreated p]\<rparr>)"
  by (auto simp: NamedTemporaryFile_def split: sum.splits)

lemma NamedTemporaryFile_Inl:
  "(NamedTemporaryFile e w suffix = Inl err) =
     (mkstemp_inner e (fs w) (tmpdir e) suffix (names e) = Inl err)"
  by (auto simp: NamedTemporaryFile_def split: sum.splits)

text \<open>
  A suffix that makes the file name longer than \<^verbatim>\<open>NAME_MAX\<close>, or that holds a NUL,
  makes \<^verbatim>\<open>NamedTemporaryFile\<close> raise whatever the environment.
\<close>

lemma NamedTemporaryFile_long_suffix:
  assumes "name_max e < 3 + length suffix"
  shows "\<exists>err. NamedTemporaryFile e w suffix = Inl err"
proof (cases "NamedTemporaryFile e w suffix")
  case (Inl err)
  then show ?thesis by blast
next
  case (Inr r)
  obtain p w1 where "r = (p, w1)" by (cases r)
  with Inr have "mkstemp_inner e (fs w) (tmpdir e) suffix (names e) = Inr p"
    by (simp add: NamedTemporaryFile_Inr)
  then obtain n where "length (''tmp'' @ n @ suffix) \<le> name_max e"
    using mkstemp_inner_candidate by blast
  with assms show ?thesis by simp
qed

lemma NamedTemporaryFile_nul_suffix:
  assumes "CHR 0x00 \<in> set suffix"
  shows "\<exists>err. NamedTemporaryFile e w suffix = Inl err"
proof (cases "NamedTemporaryFile e w suffix")
  case (Inl err)
  then show ?thesis by blast
next
  case (Inr r)
  obtain p w1 where "r = (p, w1)" by (cases r)
  with Inr have ok: "mkstemp_inner e (fs w) (tmpdir e) suffix (names e) = Inr p"
    by (simp add: NamedTemporaryFile_Inr)
  then obtain n where "p = os_path_join (tmpdir e) (''tmp'' @ n @ suffix)"
    using mkstemp_inner_candidate by blast
  then have "CHR 0x00 \<in> set p"
    using assms by (auto simp: os_path_join_def)
  with mkstemp_inner_no_nul [OF ok] show ?thesis by simp
qed

text \<open>The events of the upload handler, path by path.\<close>

lemma upload_events:
  "new_events w (snd (transcribe_audio_file e w f)) =
     (if invalid_file_type (content_type f) then []
      else (case mkstemp_inner e (fs w) (tmpdir e)
                   (snd (splitext (py_or (filename f) ''audio.wav''))) (names e) of
              Inl err \<Rightarrow> []
            | Inr p \<Rightarrow>
                (if write_fails e then [FileCreated p]
                 else (case SARVAM_CLIENT e of
                         None \<Rightarrow> [FileCreated p, FileWritten p (body f), FileDeleted p]
                       | Some client \<Rightarrow>
                           [FileCreated p, FileWritten p (body f),
                            ProviderCall (body f) DEFAULT_TRANSCRIPTION_MODEL
                              DEFAULT_LANGUAGE_CODE,
                            FileDeleted p]))))"
  by (auto simp: transcribe_audio_file_def NamedTemporaryFile_def Let_def copyfileobj_def
      tmp_close_def completed_write_def failed_write_def upload_try_body_def
      call_sarvam_transcription_api_def cleanup_def new_events_def
      dest: mkstemp_inner_nonempty
      split: option.splits sum.splits prod.splits provider_result.splits)

lemma upload_fs:
  "fs (snd (transcribe_audio_file e w f)) =
     (if invalid_file_type (content_type f) then fs w
      else (case mkstemp_inner e (fs w) (tmpdir e)
                   (snd (splitext (py_or (filename f) ''audio.wav''))) (names e) of
              Inl err \<Rightarrow> fs w
            | Inr p \<Rightarrow>
                (if write_fails e
                 then (fs w)(p \<mapsto> take (written_before_failure e) (body f))
                 else fs w)))"
proof -
  have fresh: "(fs w)(p := None) = fs w"
    if "mkstemp_inner e (fs w) d s ns = Inr p" for p d s ns
    using mkstemp_inner_fresh [OF that] by auto
  show ?thesis
    by (auto simp: transcribe_audio_file_def NamedTemporaryFile_def Let_def copyfileobj_def
        tmp_close_def completed_write_def failed_write_def upload_try_body_def
        call_sarvam_transcription_api_def cleanup_def fresh
        dest: mkstemp_inner_nonempty
        split: option.splits sum.splits prod.splits provider_result.splits)
qed


text \<open>
  What \<^verbatim>\<open>NamedTemporaryFile\<close> raises leaves the upload handler as it is, with nothing
  created.
\<close>

lemma upload_tempfile_error:
  assumes "\<not> invalid_file_type (content_type f)"
    and "NamedTemporaryFile e w (snd (splitext (py_or (filename f) ''audio.wav''))) = Inl err"
  shows "transcribe_audio_file e w f = (Uncaught err, w)"
  using assms by (simp add: transcribe_audio_file_def Let_def)

lemma base64_events:
  "new_events w (snd (transcribe_base64_audio e w request)) =
     (case b64decode (audio_data request) of
        Inl err \<Rightarrow> []
      | Inr audio_bytes \<Rightarrow>
          (let p = os_path_join (tmpdir e) (''mic_recording'' @ file_extension request) in
           if open_fails e p then (if fs w p = None then [] else [FileDeleted p])
           else if write_fails e then [FileCreated p, FileDeleted p]
           else (case SARVAM_CLIENT e of
                   None \<Rightarrow> [FileCreated p, FileWritten p audio_bytes, FileDeleted p]
                 | Some client \<Rightarrow>
                     [FileCreated p, FileWritten p audio_bytes,
                      ProviderCall audio_bytes DEFAULT_TRANSCRIPTION_MODEL DEFAULT_LANGUAGE_CODE,
                      FileDeleted p])))"
  using os_path_join_mic_nonempty [of "tmpdir e" "file_extension request"]
  by (auto simp: transcribe_base64_audio_def base64_try_body_def Let_def file_write_def
      completed_write_def failed_write_def
      open_wb_def call_sarvam_transcription_api_def cleanup_def new_events_def
      split: option.splits sum.splits prod.splits provider_result.splits)

lemma base64_fs:
  "fs (snd (transcribe_base64_audio e w request)) =
     (case b64decode (audio_data request) of
        Inl err \<Rightarrow> fs w
      | Inr audio_bytes \<Rightarrow>
          (fs w)(os_path_join (tmpdir e) (''mic_recording'' @ file_extension request) := None))"
  using os_path_join_mic_nonempty [of "tmpdir e" "file_extension request"]
  by (auto simp: transcribe_base64_audio_def base64_try_body_def Let_def file_write_def
      completed_write_def failed_write_def
      open_wb_def call_sarvam_transcription_api_def cleanup_def
      split: option.splits sum.splits prod.splits provider_result.splits)

lemma base64_status:
  "status_code (fst (transcribe_base64_audio e w request)) =
     (case b64decode (audio_data request) of
        Inl err \<Rightarrow> (if err = BinasciiError then Some 400 else Some 503)
      | Inr audio_bytes \<Rightarrow>
          (if open_fails e (os_path_join (tmpdir e) (''mic_recording'' @ file_extension request))
              \<or> write_fails e
           then Some 503
           else (case SARVAM_CLIENT e of
                   None \<Rightarrow> Some 503
                 | Some client \<Rightarrow>
                     (case client audio_bytes DEFAULT_TRANSCRIPTION_MODEL
                             DEFAULT_LANGUAGE_CODE of
                        Raises msg \<Rightarrow> Some 503
                      | Returns response \<Rightarrow>
                          (case extract_transcribed_text response of
                             PyStr s \<Rightarrow> Some 200
                           | PyNone \<Rightarrow> Some 503)))))"
  by (auto simp: transcribe_base64_audio_def base64_try_body_def Let_def file_write_def
      completed_write_def failed_write_def
      open_wb_def call_sarvam_transcription_api_def make_response_def base64_except_def
      split: option.splits sum.splits prod.splits provider_result.splits pyval.splits)

text \<open>
  A payload with a character outside ASCII is no \<^verbatim>\<open>binascii.Error\<close>: the decoder
  raises \<^verbatim>\<open>ValueError\<close>, which the second \<^verbatim>\<open>except\<close> clause turns into a 503.
\<close>

lemma non_ascii_payload_unavailable:
  assumes "\<not> is_ascii (audio_data request)"
  shows "transcribe_base64_audio e w request = (HTTPException 503 (ServiceFailed ValueError), w)"
  using assms
  by (simp add: transcribe_base64_audio_def base64_try_body_def b64decode_def base64_except_def
      cleanup_def)

text \<open>
  No file of the Base64 handler is residual. The file of the upload handler is residual
  exactly when storing the body fails, in the copy or at the close.
\<close>

lemma base64_no_residual_file:
  "residual_files w (snd (transcribe_base64_audio e w request)) = []"
  by (auto simp: residual_files_def base64_events base64_fs Let_def
      split: sum.splits option.splits)

lemma upload_residual_files:
  "residual_files w (snd (transcribe_audio_file e w f)) =
     (if invalid_file_type (content_type f) \<or> \<not> write_fails e then []
      else (case mkstemp_inner e (fs w) (tmpdir e)
                   (snd (splitext (py_or (filename f) ''audio.wav''))) (names e) of
              Inl err \<Rightarrow> []
            | Inr p \<Rightarrow> [p]))"
  by (auto simp: residual_files_def upload_events upload_fs
      dest: mkstemp_inner_fresh split: sum.splits option.splits)

subsection \<open>The decoder\<close>

lemma table_pad: "table_a2b_base64 CHR ''='' = None"
  by (simp add: table_a2b_base64_def)


text \<open>
  Over a stretch without pads the loop only counts: it leaves the stretch with the quad
  position advanced by the number of alphabet characters, modulo four.
\<close>

lemma a2b_base64_loop_unpadded:
  assumes "CHR ''='' \<notin> set s" and "q < 4"
  shows "\<exists>l' out'. a2b_base64_loop (s @ rest) q l 0 out =
           a2b_base64_loop rest ((q + length (filter in_alphabet s)) mod 4) l' 0 out'"
  using assms
proof (induction s arbitrary: q l out)
  case Nil
  then show ?case by auto
next
  case (Cons c cs)
  from Cons.prems have c: "c \<noteq> CHR ''=''" and cs: "CHR ''='' \<notin> set cs" by auto
  show ?case
  proof (cases "table_a2b_base64 c")
    case None
    then have "a2b_base64_loop ((c # cs) @ rest) q l 0 out = a2b_base64_loop (cs @ rest) q l 0 out"
      using c by simp
    moreover have "length (filter in_alphabet (c # cs)) = length (filter in_alphabet cs)"
      using None by (simp add: in_alphabet_def)
    ultimately show ?thesis using Cons.IH [OF cs Cons.prems(2)] by simp
  next
    case (Some v)
    consider "q = 0" | "q = 1" | "q = 2" | "q = 3"
      using Cons.prems(2) by linarith
    then have step: "\<exists>l1 out1. a2b_base64_loop ((c # cs) @ rest) q l 0 out =
                       a2b_base64_loop (cs @ rest) ((q + 1) mod 4) l1 0 out1"
    proof cases
      case 1
      then have h: "a2b_base64_loop ((c # cs) @ rest) q l 0 out =
                   a2b_base64_loop (cs @ rest) 1 v 0 out"
        using c Some by simp
      have m: "(q + 1) mod 4 = 1" using 1 by simp
      show ?thesis unfolding m using h by blast
    next
      case 2
      then have h: "a2b_base64_loop ((c # cs) @ rest) q l 0 out =
                   a2b_base64_loop (cs @ rest) 2 (v AND 0x0f) 0
                     (out @ [push_bit 2 l OR drop_bit 4 v])"
        using c Some by simp
      have m: "(q + 1) mod 4 = 2" using 2 by simp
      show ?thesis unfolding m using h by blast
    next
      case 3
      then have h: "a2b_base64_loop ((c # cs) @ rest) q l 0 out =
                   a2b_base64_loop (cs @ rest) 3 (v AND 0x03) 0
                     (out @ [push_bit 4 l OR drop_bit 2 v])"
        using c Some by simp
      have m: "(q + 1) mod 4 = 3" using 3 by simp
      show ?thesis unfolding m using h by blast
    next
      case 4
      then have h: "a2b_base64_loop ((c # cs) @ rest) q l 0 out =
                   a2b_base64_loop (cs @ rest) 0 0 0 (out @ [push_bit 6 l OR v])"
        using c Some by simp
      have m: "(q + 1) mod 4 = 0" using 4 by simp
      show ?thesis unfolding m using h by blast
    qed
    then obtain l1 out1 where l1: "a2b_base64_loop ((c # cs) @ rest) q l 0 out =
                       a2b_base64_loop (cs @ rest) ((q + 1) mod 4) l1 0 out1"
      by blast
    have q1: "(q + 1) mod 4 < 4" by simp
    from Cons.IH [OF cs q1, of l1 out1] obtain l' out' where
      "a2b_base64_loop (cs @ rest) ((q + 1) mod 4) l1 0 out1 =
         a2b_base64_loop rest (((q + 1) mod 4 + length (filter in_alphabet cs)) mod 4) l' 0 out'"
      by blast
    moreover have "length (filter in_alphabet (c # cs)) = Suc (length (filter in_alphabet cs))"
      using Some by (simp add: in_alphabet_def)
    moreover have "((q + 1) mod 4 + n) mod 4 = (q + Suc n) mod 4" for n
      by presburger
    ultimately show ?thesis using l1 by auto
  qed
qed

lemma a2b_base64_unpadded:
  assumes "CHR ''='' \<notin> set s"
  shows "(a2b_base64 s = Inl BinasciiError) = (length (filter in_alphabet s) mod 4 \<noteq> 0)"
    and "(\<exists>bs. a2b_base64 s = Inr bs) = (length (filter in_alphabet s) mod 4 = 0)"
proof -
  obtain l' out' where "a2b_base64_loop (s @ []) 0 0 0 [] =
      a2b_base64_loop [] ((0 + length (filter in_alphabet s)) mod 4) l' 0 out'"
    using a2b_base64_loop_unpadded [OF assms, of 0 "[]" 0 "[]"] by auto
  then have eq: "a2b_base64 s =
      (if length (filter in_alphabet s) mod 4 \<noteq> 0 then Inl BinasciiError else Inr out')"
    by (simp add: a2b_base64_def)
  show "(a2b_base64 s = Inl BinasciiError) = (length (filter in_alphabet s) mod 4 \<noteq> 0)"
    using eq by auto
  show "(\<exists>bs. a2b_base64 s = Inr bs) = (length (filter in_alphabet s) mod 4 = 0)"
    using eq by auto
qed




section \<open>The claims\<close>

text \<open>
  C1. Every temporary file created while a request is handled is deleted before the
  handler returns, on every exit path. The upload handler breaks this when copying the
  body fails: the file that \<^verbatim>\<open>NamedTemporaryFile(delete=False)\<close> created stays on disk,
  the handler answers 500 and its \<^verbatim>\<open>finally\<close> block is never reached.
\<close>

theorem upload_copy_failure_leaves_file:
  "fst (transcribe_audio_file (test_env (Some (echo_provider ''hello world'')) True) empty_world
       (upload (Some ''audio/wav'') (Some ''clip.wav'')))
     = HTTPException 500 (Msg ''Failed to save uploaded file temporarily.'')
   \<and> fs empty_world ''/tmp/tmpabcd1234.wav'' = None
   \<and> fs (snd (transcribe_audio_file (test_env (Some (echo_provider ''hello world'')) True)
        empty_world (upload (Some ''audio/wav'') (Some ''clip.wav'')))) ''/tmp/tmpabcd1234.wav''
       = Some []
   \<and> residual_files empty_world
        (snd (transcribe_audio_file (test_env (Some (echo_provider ''hello world'')) True)
          empty_world (upload (Some ''audio/wav'') (Some ''clip.wav''))))
       = [''/tmp/tmpabcd1234.wav'']"
  by code_simp

text \<open>
  C2, as amended. Whenever \<^verbatim>\<open>base64.b64decode\<close> raises \<^verbatim>\<open>binascii.Error\<close> on the
  payload, the Base64 endpoint answers 400 and the world is as before: no file, no call
  of the provider.
\<close>

theorem undecodable_base64_rejected:
  assumes "b64decode (audio_data request) = Inl BinasciiError"
  shows "transcribe_base64_audio e w request =
           (HTTPException 400 (Msg ''Invalid Base64 audio data received.''), w)"
  using assms
  by (simp add: transcribe_base64_audio_def base64_try_body_def base64_except_def cleanup_def)

text \<open>The scenario of the specification: the payload \<^verbatim>\<open>"!!!not-base64!!!"\<close>.\<close>

theorem undecodable_base64_rejected_witness:
  "b64decode (audio_data (base64_request ''!!!not-base64!!!'')) = Inl BinasciiError
   \<and> status_code (fst (transcribe_base64_audio
        (test_env (Some (echo_provider ''hello world'')) False)
        empty_world (base64_request ''!!!not-base64!!!''))) = Some 400
   \<and> trace (snd (transcribe_base64_audio
        (test_env (Some (echo_provider ''hello world'')) False)
        empty_world (base64_request ''!!!not-base64!!!''))) = []"
proof -
  have h: "b64decode (audio_data (base64_request ''!!!not-base64!!!'')) = Inl BinasciiError"
    by code_simp
  show ?thesis
    using h undecodable_base64_rejected
      [OF h, of "test_env (Some (echo_provider ''hello world'')) False" empty_world]
    by (simp add: empty_world_def)
qed

text \<open>
  C2 as stated fails: \<^verbatim>\<open>"!!!!"\<close> is not valid Base64, yet the decoder skips its four
  characters and returns no bytes, so the endpoint calls the provider and answers 200.
\<close>

theorem lenient_decoder_counterexample:
  "\<not> valid_base64 ''!!!!''
   \<and> status_code (fst (transcribe_base64_audio
        (test_env (Some (echo_provider ''hello world'')) False)
        empty_world (base64_request ''!!!!''))) = Some 200
   \<and> provider_calls (trace (snd (transcribe_base64_audio
        (test_env (Some (echo_provider ''hello world'')) False)
        empty_world (base64_request ''!!!!''))))
       = [ProviderCall [] ''saarika:v2.5'' ''gu-IN'']"
  by code_simp

text \<open>
  C3, as amended. For an upload with an audio content type, the temporary file is the
  one \<^verbatim>\<open>NamedTemporaryFile\<close> creates for the suffix
  \<^verbatim>\<open>os.path.splitext(file.filename or "audio.wav")[1]\<close>: the extension of the original
  filename when there is a filename, \<^verbatim>\<open>.wav\<close> when the filename is absent (\<^verbatim>\<open>None\<close> or
  empty), and no file when \<^verbatim>\<open>NamedTemporaryFile\<close> raises. The name of that file is a
  candidate name with exactly this suffix appended, and a filename without a dot gives
  the empty suffix.
\<close>

theorem upload_suffix_from_filename:
  assumes "content_type f = Some ct" and "take 6 ct = ''audio/''"
  shows "(filename f = Some name \<and> name \<noteq> [] \<longrightarrow>
          created_files (new_events w (snd (transcribe_audio_file e w f))) =
            (case NamedTemporaryFile e w (snd (splitext name)) of
               Inl err \<Rightarrow> []
             | Inr (p, w1) \<Rightarrow> [p]))
       \<and> (filename f = None \<or> filename f = Some [] \<longrightarrow>
          created_files (new_events w (snd (transcribe_audio_file e w f))) =
            (case NamedTemporaryFile e w ''.wav'' of
               Inl err \<Rightarrow> []
             | Inr (p, w1) \<Rightarrow> [p]))
       \<and> (NamedTemporaryFile e w suffix = Inr (p, w1) \<longrightarrow>
          (\<exists>n \<in> set (names e). p = os_path_join (tmpdir e) (''tmp'' @ n @ suffix)))
       \<and> (CHR ''.'' \<notin> set name \<longrightarrow> snd (splitext name) = [])"
proof -
  let ?ext = "snd (splitext (py_or (filename f) ''audio.wav''))"
  let ?created = "created_files (new_events w (snd (transcribe_audio_file e w f)))"
  have valid: "\<not> invalid_file_type (content_type f)"
    using assms by (simp add: invalid_file_type_iff)
  have created: "?created =
      (case NamedTemporaryFile e w ?ext of Inl err \<Rightarrow> [] | Inr (p, w1) \<Rightarrow> [p])"
  proof (cases "mkstemp_inner e (fs w) (tmpdir e) ?ext (names e)")
    case (Inl err)
    then show ?thesis using valid by (simp add: upload_events NamedTemporaryFile_def)
  next
    case (Inr q)
    then show ?thesis using valid
      by (simp add: upload_events NamedTemporaryFile_def split: option.splits)
  qed
  have named: "?ext = snd (splitext name)" if "filename f = Some name" "name \<noteq> []"
    using that by (simp add: py_or_def)
  have absent: "?ext = ''.wav''" if "filename f = None \<or> filename f = Some []"
    using that by (auto simp: py_or_def splitext_default)
  have shape: "\<exists>n \<in> set (names e). p = os_path_join (tmpdir e) (''tmp'' @ n @ suffix)"
    if "NamedTemporaryFile e w suffix = Inr (p, w1)"
  proof -
    from that have "mkstemp_inner e (fs w) (tmpdir e) suffix (names e) = Inr p"
      by (simp add: NamedTemporaryFile_Inr)
    from mkstemp_inner_candidate [OF this] show ?thesis by blast
  qed
  show ?thesis
  proof (intro conjI impI)
    assume "filename f = Some name \<and> name \<noteq> []"
    then have "?ext = snd (splitext name)" using named by blast
    with created show "?created =
        (case NamedTemporaryFile e w (snd (splitext name)) of
           Inl err \<Rightarrow> [] | Inr (p, w1) \<Rightarrow> [p])"
      by simp
  next
    assume "filename f = None \<or> filename f = Some []"
    then have "?ext = ''.wav''" by (rule absent)
    with created show "?created =
        (case NamedTemporaryFile e w ''.wav'' of Inl err \<Rightarrow> [] | Inr (p, w1) \<Rightarrow> [p])"
      by simp
  next
    assume "NamedTemporaryFile e w suffix = Inr (p, w1)"
    then show "\<exists>n \<in> set (names e). p = os_path_join (tmpdir e) (''tmp'' @ n @ suffix)"
      by (rule shape)
  next
    assume "CHR ''.'' \<notin> set name"
    then show "snd (splitext name) = []" by (rule splitext_no_dot)
  qed
qed

text \<open>
  The uploads of \<^verbatim>\<open>clip.wav\<close> and of \<^verbatim>\<open>clip\<close>: one temporary file each, the first
  with the suffix \<^verbatim>\<open>.wav\<close>, the second with none.
\<close>

theorem upload_suffix_from_filename_witness:
  "created_files (new_events empty_world (snd (transcribe_audio_file
        (test_env (Some (echo_provider ''hello world'')) False) empty_world
        (upload (Some ''audio/wav'') (Some ''clip.wav''))))) = [''/tmp/tmpabcd1234.wav'']
   \<and> created_files (new_events empty_world (snd (transcribe_audio_file
        (test_env (Some (echo_provider ''hello world'')) False) empty_world
        (upload (Some ''audio/wav'') (Some ''clip''))))) = [''/tmp/tmpabcd1234'']
   \<and> created_files (new_events empty_world (snd (transcribe_audio_file
        (test_env (Some (echo_provider ''hello world'')) False) empty_world
        (upload (Some ''audio/wav'') None)))) = [''/tmp/tmpabcd1234.wav'']
   \<and> snd (splitext ''clip'') = []"
proof -
  let ?e = "test_env (Some (echo_provider ''hello world'')) False"
  have ct: "content_type (upload (Some ''audio/wav'') n) = Some ''audio/wav''" for n
    by (simp add: upload_def)
  have tk: "take 6 ''audio/wav'' = ''audio/''" by simp
  have name: "filename (upload (Some ''audio/wav'') n) = n" for n
    by (simp add: upload_def)
  have wav: "(case NamedTemporaryFile ?e empty_world (snd (splitext ''clip.wav'')) of
                Inl err \<Rightarrow> [] | Inr (p, w1) \<Rightarrow> [p]) = [''/tmp/tmpabcd1234.wav'']"
    by code_simp
  have bare: "(case NamedTemporaryFile ?e empty_world (snd (splitext ''clip'')) of
                Inl err \<Rightarrow> [] | Inr (p, w1) \<Rightarrow> [p]) = [''/tmp/tmpabcd1234'']"
    by code_simp
  have dflt: "(case NamedTemporaryFile ?e empty_world ''.wav'' of
                Inl err \<Rightarrow> [] | Inr (p, w1) \<Rightarrow> [p]) = [''/tmp/tmpabcd1234.wav'']"
    by code_simp
  have nodot: "CHR ''.'' \<notin> set ''clip''" by simp
  show ?thesis
    using wav bare dflt nodot
      upload_suffix_from_filename [OF ct tk, of "Some ''clip.wav''" "''clip.wav''" empty_world ?e]
      upload_suffix_from_filename [OF ct tk, of "Some ''clip''" "''clip''" empty_world ?e]
      upload_suffix_from_filename [OF ct tk, of None "''clip''" empty_world ?e]
    by (simp add: name)
qed

text \<open>
  C3 as stated fails: the filename \<^verbatim>\<open>clip\<close> supplies no extension, and the temporary
  file gets the empty suffix, not \<^verbatim>\<open>.wav\<close>.
\<close>

theorem extensionless_filename_counterexample:
  "filename (upload (Some ''audio/wav'') (Some ''clip'')) = Some ''clip''
   \<and> snd (splitext ''clip'') = []
   \<and> created_files (trace (snd (transcribe_audio_file
        (test_env (Some (echo_provider ''hello world'')) False) empty_world
        (upload (Some ''audio/wav'') (Some ''clip''))))) = [''/tmp/tmpabcd1234'']
   \<and> \<not> endswith ''/tmp/tmpabcd1234'' ''.wav''"
  by code_simp

text \<open>
  C4. For every response mapping the provider returns, the adapter returns the value
  under \<^verbatim>\<open>'text'\<close> if that key is present, otherwise the value under \<^verbatim>\<open>'transcript'\<close>
  if that key is present, and otherwise the sentinel string; it raises nothing in this
  step.
\<close>

theorem adapter_probes_text_then_transcript:
  assumes "SARVAM_CLIENT e = Some client"
    and "fs w file_path = Some audio"
    and "client audio DEFAULT_TRANSCRIPTION_MODEL DEFAULT_LANGUAGE_CODE = Returns response"
  shows "fst (call_sarvam_transcription_api e w file_path) =
           Inr (case response ''text'' of
                  Some v \<Rightarrow> v
                | None \<Rightarrow>
                    (case response ''transcript'' of
                       Some v \<Rightarrow> v
                     | None \<Rightarrow> PyStr ''Transcription result not found in API response.''))"
  using assms
  by (simp add: call_sarvam_transcription_api_def extract_transcribed_text_def dict_get_def
      NOT_FOUND_def Let_def split: option.splits)

text \<open>
  A response with the secondary key only gives its value; an empty response gives the
  sentinel.
\<close>

theorem adapter_probes_text_then_transcript_witness:
  "fs (world_with ''/tmp/clip.wav'' ten_bytes) ''/tmp/clip.wav'' = Some ten_bytes
   \<and> fst (call_sarvam_transcription_api
        (test_env (Some (mock_provider [''transcript'' \<mapsto> PyStr ''namaste''])) False)
        (world_with ''/tmp/clip.wav'' ten_bytes) ''/tmp/clip.wav'') = Inr (PyStr ''namaste'')
   \<and> fst (call_sarvam_transcription_api (test_env (Some (mock_provider Map.empty)) False)
        (world_with ''/tmp/clip.wav'' ten_bytes) ''/tmp/clip.wav'')
       = Inr (PyStr ''Transcription result not found in API response.'')"
proof -
  let ?w = "world_with ''/tmp/clip.wav'' ten_bytes"
  let ?r = "[''transcript'' \<mapsto> PyStr ''namaste'']"
  have stored: "fs ?w ''/tmp/clip.wav'' = Some ten_bytes"
    by (simp add: world_with_def)
  have client: "SARVAM_CLIENT (test_env (Some (mock_provider r)) False)
                  = Some (mock_provider r)" for r
    by (simp add: test_env_def)
  have answer: "mock_provider r ten_bytes DEFAULT_TRANSCRIPTION_MODEL DEFAULT_LANGUAGE_CODE
                  = Returns r" for r
    by (simp add: mock_provider_def)
  have fallback: "fst (call_sarvam_transcription_api
        (test_env (Some (mock_provider ?r)) False) ?w ''/tmp/clip.wav'')
      = Inr (case ?r ''text'' of
               Some v \<Rightarrow> v
             | None \<Rightarrow>
                 (case ?r ''transcript'' of
                    Some v \<Rightarrow> v
                  | None \<Rightarrow> PyStr ''Transcription result not found in API response.''))"
    using client [of ?r] stored answer [of ?r]
    by (rule adapter_probes_text_then_transcript)
  have sentinel: "fst (call_sarvam_transcription_api
        (test_env (Some (mock_provider Map.empty)) False) ?w ''/tmp/clip.wav'')
      = Inr (case (Map.empty :: string \<rightharpoonup> pyval) ''text'' of
               Some v \<Rightarrow> v
             | None \<Rightarrow>
                 (case (Map.empty :: string \<rightharpoonup> pyval) ''transcript'' of
                    Some v \<Rightarrow> v
                  | None \<Rightarrow> PyStr ''Transcription result not found in API response.''))"
    using client [of Map.empty] stored answer [of Map.empty]
    by (rule adapter_probes_text_then_transcript)
  show ?thesis
    using stored fallback sentinel by simp
qed




text \<open>
  C6. An upload whose declared content type is missing or does not begin with
  \<^verbatim>\<open>audio/\<close> is answered 400, and the world is as before: no temporary file is
  created and the provider is not called.
\<close>

theorem non_audio_rejected:
  assumes "content_type f = None
           \<or> (\<exists>ct. content_type f = Some ct \<and> take 6 ct \<noteq> ''audio/'')"
  shows "transcribe_audio_file e w f =
           (HTTPException 400 (Msg ''Invalid file type. Only audio files are accepted.''), w)"
proof -
  have "invalid_file_type (content_type f)"
    using assms by (simp add: invalid_file_type_iff)
  then show ?thesis by (simp add: transcribe_audio_file_def)
qed

text \<open>An upload declared \<^verbatim>\<open>text/plain\<close>: 400, and an empty trace.\<close>

theorem non_audio_rejected_witness:
  "content_type (upload (Some ''text/plain'') (Some ''notes.txt'')) = Some ''text/plain''
   \<and> take 6 ''text/plain'' \<noteq> ''audio/''
   \<and> status_code (fst (transcribe_audio_file
        (test_env (Some (echo_provider ''hello world'')) False)
        empty_world (upload (Some ''text/plain'') (Some ''notes.txt'')))) = Some 400
   \<and> trace (snd (transcribe_audio_file
        (test_env (Some (echo_provider ''hello world'')) False)
        empty_world (upload (Some ''text/plain'') (Some ''notes.txt'')))) = []"
  using non_audio_rejected [of "upload (Some ''text/plain'') (Some ''notes.txt'')"
      "test_env (Some (echo_provider ''hello world'')) False" empty_world]
  by (simp add: upload_def empty_world_def)



text \<open>
  C8. When the uploaded file carries no filename (\<^verbatim>\<open>None\<close> or the empty string), a
  successful response of the upload endpoint reports the filename \<^verbatim>\<open>audio_file\<close>.
\<close>

theorem missing_filename_placeholder:
  assumes "filename f = None \<or> filename f = Some []"
    and "fst (transcribe_audio_file e w f) = Ok resp"
  shows "resp_filename resp = ''audio_file''"
  using assms
  by (auto simp: transcribe_audio_file_def upload_try_body_def py_or_def make_response_def Let_def
      split: sum.splits prod.splits pyval.splits if_splits)

text \<open>An upload without a filename, transcribed.\<close>

theorem missing_filename_placeholder_witness:
  "filename (upload (Some ''audio/wav'') None) = None
   \<and> fst (transcribe_audio_file (test_env (Some (echo_provider ''hello world'')) False)
        empty_world (upload (Some ''audio/wav'') None))
       = Ok \<lparr>resp_filename = ''audio_file'', transcribed_text = ''hello world''\<rparr>"
proof -
  have h: "fst (transcribe_audio_file (test_env (Some (echo_provider ''hello world'')) False)
        empty_world (upload (Some ''audio/wav'') None))
       = Ok \<lparr>resp_filename = ''audio_file'', transcribed_text = ''hello world''\<rparr>"
    by code_simp
  have n: "filename (upload (Some ''audio/wav'') None) = None"
    by (simp add: upload_def)
  from missing_filename_placeholder [OF disjI1 [OF n] h] n h show ?thesis by simp
qed

text \<open>
  C9. The Base64 endpoint does not check that the payload is non-empty: the empty string
  decodes to no bytes, the answer is never 400, and, when the temporary file can be
  opened and written and the client is initialised, an empty temporary file is written
  and the provider is called with it.
\<close>

theorem empty_payload_is_transcribed:
  "b64decode [] = Inr []
   \<and> (audio_data request = [] \<longrightarrow>
        status_code (fst (transcribe_base64_audio e w request)) \<noteq> Some 400)
   \<and> (audio_data request = []
       \<and> \<not> open_fails e (os_path_join (tmpdir e) (''mic_recording'' @ file_extension request))
       \<and> \<not> write_fails e \<and> SARVAM_CLIENT e = Some client \<longrightarrow>
        new_events w (snd (transcribe_base64_audio e w request)) =
          [FileCreated (os_path_join (tmpdir e) (''mic_recording'' @ file_extension request)),
           FileWritten (os_path_join (tmpdir e) (''mic_recording'' @ file_extension request)) [],
           ProviderCall [] DEFAULT_TRANSCRIPTION_MODEL DEFAULT_LANGUAGE_CODE,
           FileDeleted (os_path_join (tmpdir e) (''mic_recording'' @ file_extension request))])"
proof -
  have dec: "b64decode [] = Inr []"
    by (simp add: b64decode_def is_ascii_def a2b_base64_def)
  have no400: "status_code (fst (transcribe_base64_audio e w request)) \<noteq> Some 400"
    if "audio_data request = []"
    using that dec by (simp add: base64_status split: option.splits provider_result.splits
        pyval.splits)
  have tr: "new_events w (snd (transcribe_base64_audio e w request)) =
          [FileCreated (os_path_join (tmpdir e) (''mic_recording'' @ file_extension request)),
           FileWritten (os_path_join (tmpdir e) (''mic_recording'' @ file_extension request)) [],
           ProviderCall [] DEFAULT_TRANSCRIPTION_MODEL DEFAULT_LANGUAGE_CODE,
           FileDeleted (os_path_join (tmpdir e) (''mic_recording'' @ file_extension request))]"
    if "audio_data request = []"
      "\<not> open_fails e (os_path_join (tmpdir e) (''mic_recording'' @ file_extension request))"
      "\<not> write_fails e" "SARVAM_CLIENT e = Some client"
    using that dec by (simp add: base64_events Let_def)
  from dec no400 tr show ?thesis by blast
qed

text \<open>The empty payload against the provider mock.\<close>

theorem empty_payload_is_transcribed_witness:
  "audio_data (base64_request []) = []
   \<and> \<not> write_fails (test_env (Some (echo_provider ''hello world'')) False)
   \<and> status_code (fst (transcribe_base64_audio
         (test_env (Some (echo_provider ''hello world'')) False)
         empty_world (base64_request []))) \<noteq> Some 400
   \<and> new_events empty_world (snd (transcribe_base64_audio
         (test_env (Some (echo_provider ''hello world'')) False)
         empty_world (base64_request []))) =
       [FileCreated ''/tmp/mic_recording.wav'', FileWritten ''/tmp/mic_recording.wav'' [],
        ProviderCall [] ''saarika:v2.5'' ''gu-IN'', FileDeleted ''/tmp/mic_recording.wav'']"
  using empty_payload_is_transcribed [of "base64_request []"
      "test_env (Some (echo_provider ''hello world'')) False" empty_world
      "echo_provider ''hello world''"]
  by (simp add: base64_request_def test_env_def os_path_join_def DEFAULT_TRANSCRIPTION_MODEL_def
      DEFAULT_LANGUAGE_CODE_def)

text \<open>
  C10. In the Base64 handler the filename of the request reaches the response only: two
  requests that differ in their filename alone leave the same files, the same trace (the
  same temporary path, the same bytes written, the same call of the provider), and
  outcomes that differ in the echoed filename at most.
\<close>

theorem filename_only_echoed:
  "snd (transcribe_base64_audio e w (request\<lparr>req_filename := a\<rparr>))
     = snd (transcribe_base64_audio e w (request\<lparr>req_filename := b\<rparr>))
   \<and> fst (transcribe_base64_audio e w (request\<lparr>req_filename := a\<rparr>))
     = set_filename a (fst (transcribe_base64_audio e w (request\<lparr>req_filename := b\<rparr>)))"
  by (auto simp: transcribe_base64_audio_def base64_try_body_def Let_def make_response_def
      base64_except_def file_write_def
      split: sum.splits prod.splits pyval.splits if_splits)

end
